theory Spec2Isabelle
  imports Main "HOL-Library.Word"
begin

section \<open>The HTTP bridge of the sync backend\<close>

text \<open>
  A shallow embedding of \<^verbatim>\<open>chrome/browser/sync/glue/http_bridge.h\<close>: the request
  context used for bridged requests (class \<^verbatim>\<open>HttpBridge::RequestContext\<close>), whose
  member functions are defined inline in the header, and the data members of
  \<^verbatim>\<open>HttpBridge\<close>. A C++ data member \<^verbatim>\<open>name_\<close> is the record field \<open>name\<close>: a
  name of the logic cannot end with an underscore.
\<close>

subsection \<open>Data\<close>

text \<open>A URL (class \<^verbatim>\<open>GURL\<close>) is its spelling.\<close>

type_synonym GURL = string

text \<open>
  Modelled from the spec: class \<^verbatim>\<open>URLRequestContext\<close>
  (\<^verbatim>\<open>net/url_request/url_request_context.h\<close>), the base class of the bridged context
  and the type of the baseline context; its declaration is not among the sources. The
  spec requires of a baseline context that it expose accept-language, accept-charset and
  proxy configuration; the header names the same three (\<^verbatim>\<open>accept-language,
  accept-charsets, and proxy service information\<close>). The proxy service is an object shared
  by reference and is modelled by its identity.
\<close>

record URLRequestContext =
  accept_language :: string
  accept_charset :: string
  proxy_service :: nat

text \<open>
  \<^verbatim>\<open>class RequestContext : public URLRequestContext\<close> with its two data members
  \<^verbatim>\<open>std::string user_agent_\<close> and \<^verbatim>\<open>URLRequestContext* baseline_context_\<close>. The
  record extends the record of the base class as the class derives from it. The baseline
  context is not owned and is never written through the pointer by the functions below,
  so the pointer is modelled by the object it refers to.
\<close>

record RequestContext = URLRequestContext +
  user_agent :: string
  baseline_context :: URLRequestContext

subsection \<open>The member functions defined in the header\<close>

text \<open>\<^verbatim>\<open>void set_user_agent(const std::string& ua) { user_agent_ = ua; }\<close>\<close>

definition set_user_agent :: "string \<Rightarrow> RequestContext \<Rightarrow> RequestContext" where
  "set_user_agent ua this = this\<lparr>user_agent := ua\<rparr>"



text \<open>
  \<^verbatim>\<open>virtual bool AllowSendingCookies(const URLRequest* request) const { return false; }\<close>

  Class \<^verbatim>\<open>URLRequest\<close> is not among the sources; the request is of any type.
\<close>

definition AllowSendingCookies :: "RequestContext \<Rightarrow> 'request \<Rightarrow> bool" where
  "AllowSendingCookies this request = False"

subsection \<open>The constructor of the bridged context\<close>

text \<open>
  Modelled from the spec: the constructor
  \<^verbatim>\<open>explicit RequestContext(URLRequestContext* baseline_context)\<close>, which the header
  declares and \<^verbatim>\<open>http_bridge.cc\<close>, not among the sources, defines. The header says
  of it that the baseline context "is used to obtain the accept-language,
  accept-charsets, and proxy service information for bridged requests"; the spec says
  that the policy references a baseline request context, that these three settings
  delegate to the baseline, and that the user-agent override is optional, the empty
  string meaning "not set".
\<close>

definition RequestContext :: "URLRequestContext \<Rightarrow> RequestContext" where
  "RequestContext baseline =
     \<lparr>accept_language = accept_language baseline,
      accept_charset = accept_charset baseline,
      proxy_service = proxy_service baseline,
      user_agent = [],
      baseline_context = baseline\<rparr>"

subsection \<open>The bridge\<close>

text \<open>
  Modelled from the spec: how the transport ended, as the fetch engine reports it. The
  spec tells a transport failure (no valid HTTP exchange: DNS, connection, TLS,
  engine-internal abort) from a completed exchange, whatever the HTTP status of the
  exchange.
\<close>

datatype transport_status = SUCCESS | FAILED

text \<open>
  Modelled from the spec: class \<^verbatim>\<open>URLRequestStatus\<close>, the type of the completion
  handler's \<^verbatim>\<open>status\<close> argument, which is not among the sources; the spec calls it
  the "transport status/error code" that the engine hands to the completion callback.
\<close>

record URLRequestStatus =
  status :: transport_status
  os_error :: int

text \<open>
  Message loops and fetchers are objects the bridge only points to; they are modelled
  by their identities, and a null pointer by \<open>None\<close>. The cookies of a response are a
  list of strings (\<^verbatim>\<open>ResponseCookies\<close>).
\<close>

type_synonym MessageLoop = nat

type_synonym URLFetcher = nat

type_synonym ResponseCookies = "string list"

text \<open>
  The data members of \<^verbatim>\<open>class HttpBridge\<close>, in the order of the header. The two
  codes are C++ \<^verbatim>\<open>int\<close>s that are stored and handed back, never computed with nor
  converted, and are integers here. The response body is a \<^verbatim>\<open>std::string\<close> holding plain bytes: a
  list of characters, each a byte, the NUL byte included. The waitable event
  \<^verbatim>\<open>http_post_completed_\<close> is its state, signalled or not.
\<close>

record HttpBridge =
  context_for_request :: RequestContext
  url_poster :: "URLFetcher option"
  created_on_loop :: MessageLoop
  io_loop :: MessageLoop
  url_for_request :: GURL
  content_type :: string
  request_content :: string
  extra_headers :: string
  request_completed :: bool
  request_succeeded :: bool
  http_response_code :: int
  os_error_code :: int
  response_content :: string
  http_post_completed :: bool
  use_io_loop_for_testing :: bool

text \<open>
  Modelled from the spec: the completion handler \<^verbatim>\<open>HttpBridge::OnURLFetchComplete\<close>,
  declared in the header and defined in \<^verbatim>\<open>http_bridge.cc\<close>, which is not among the
  sources. The spec: the handler "receives final status, response code, and body;
  classifies the outcome as succeeded or failed based on transport status [...]; records
  all result fields; fires the completion signal exactly once". The fetcher, the URL and
  the cookies of the response are received and not used ("response headers/cookies
  (ignored by this core)").
\<close>

definition OnURLFetchComplete ::
  "HttpBridge \<Rightarrow> URLFetcher \<Rightarrow> GURL \<Rightarrow> URLRequestStatus \<Rightarrow> int \<Rightarrow> ResponseCookies \<Rightarrow> string
     \<Rightarrow> HttpBridge" where
  "OnURLFetchComplete this source url st response_code cookies data =
     this\<lparr>request_completed := True,
          request_succeeded := (status st = SUCCESS),
          http_response_code := response_code,
          os_error_code := os_error st,
          response_content := data,
          http_post_completed := True\<rparr>"

text \<open>
  Modelled from the spec: \<^verbatim>\<open>GetResponseContentLength\<close>, which with
  \<^verbatim>\<open>GetResponseContent\<close> is declared in the header and defined in
  \<^verbatim>\<open>http_bridge.cc\<close>, not among the sources. The spec: "length and byte-range
  length must always agree". The bridge has one data member for the response,
  \<^verbatim>\<open>response_content_\<close>, and none for its length; the header warns that the content
  is "plain old data and not null terminated strings", to be read as
  \<^verbatim>\<open>string r(b->GetResponseContent(), b->GetResponseContentLength())\<close>. The header
  declares the return type \<^verbatim>\<open>int\<close>, a 32-bit two's complement integer, while the
  size of a \<^verbatim>\<open>std::string\<close> is unsigned and wider: the result is the size narrowed
  to 32 bits, a word that \<open>sint\<close> reads as the C++ \<^verbatim>\<open>int\<close>.
\<close>

definition GetResponseContentLength :: "HttpBridge \<Rightarrow> 32 word" where
  "GetResponseContentLength this = of_nat (length (response_content this))"

text \<open>
  Modelled from the spec: \<^verbatim>\<open>GetResponseContent\<close>, the byte range of the response
  body (see \<open>GetResponseContentLength\<close>).
\<close>

definition GetResponseContent :: "HttpBridge \<Rightarrow> string" where
  "GetResponseContent this = response_content this"

subsection \<open>Concrete inputs\<close>

text \<open>
  A baseline context, a bridged context on it whose user agent is not set, and a bridge
  on which a POST has been configured and not yet sent.
\<close>

definition example_baseline :: URLRequestContext where
  "example_baseline =
     \<lparr>accept_language = ''en-US,en'', accept_charset = ''utf-8'', proxy_service = 7\<rparr>"

definition example_context :: RequestContext where
  "example_context =
     \<lparr>accept_language = ''en-US,en'', accept_charset = ''utf-8'', proxy_service = 7,
      user_agent = [], baseline_context = example_baseline\<rparr>"

definition example_bridge :: HttpBridge where
  "example_bridge =
     \<lparr>context_for_request = example_context,
      url_poster = None,
      created_on_loop = 1,
      io_loop = 2,
      url_for_request = ''https://sync.example/command'',
      content_type = ''application/json'',
      request_content = ''{op:commit}'',
      extra_headers = [],
      request_completed = False,
      request_succeeded = False,
      http_response_code = 0,
      os_error_code = 0,
      response_content = [],
      http_post_completed = False,
      use_io_loop_for_testing = False\<rparr>"



text \<open>A response body of \<open>2\<^sup>3\<^sup>1\<close> bytes.\<close>

definition two_gib_body :: string where
  "two_gib_body = replicate 2147483648 (CHR 0x00)"

section \<open>Properties\<close>

subsection \<open>Auxiliary facts\<close>

text \<open>
  Any sequence of calls of \<open>set_user_agent\<close> leaves the context as it was, but for
  the user agent, which is the argument of the last call.
\<close>

lemma fold_set_user_agent:
  "fold set_user_agent uas rc = rc\<lparr>user_agent := last (user_agent rc # uas)\<rparr>"
  by (induction uas arbitrary: rc) (simp_all add: set_user_agent_def)

lemma OnURLFetchComplete_fields:
  "request_completed (OnURLFetchComplete b source url st response_code cookies data) = True"
  "request_succeeded (OnURLFetchComplete b source url st response_code cookies data)
     = (status st = SUCCESS)"
  "http_response_code (OnURLFetchComplete b source url st response_code cookies data)
     = response_code"
  "os_error_code (OnURLFetchComplete b source url st response_code cookies data)
     = os_error st"
  "response_content (OnURLFetchComplete b source url st response_code cookies data) = data"
  "http_post_completed (OnURLFetchComplete b source url st response_code cookies data)
     = True"
  by (simp_all add: OnURLFetchComplete_def)

text \<open>A size below \<open>2\<^sup>3\<^sup>1\<close> survives the narrowing to the 32-bit signed integer.\<close>

lemma sint_of_nat_small:
  assumes "n < 2 ^ 31"
  shows "sint (of_nat n :: 32 word) = int n"
proof -
  have "sint (of_nat n :: 32 word) = signed_take_bit 31 (int n)"
    by (simp add: signed_of_nat)
  also have "\<dots> = int n"
    using assms by (simp add: signed_take_bit_int_eq_self)
  finally show ?thesis .
qed

lemma length_two_gib_body: "length two_gib_body = 2147483648"
  by (simp only: two_gib_body_def length_replicate)

subsection \<open>Cookies\<close>

text \<open>
  Claim C3. For every request made through the bridged context, whatever the request
  and whatever the state of the context (its user agent, its inherited settings, its
  baseline context), \<open>AllowSendingCookies\<close> answers false.
\<close>

theorem AllowSendingCookies_false:
  "AllowSendingCookies rc request = False"
  by (simp add: AllowSendingCookies_def)

subsection \<open>The user agent\<close>







text \<open>
  Claim C10. Whatever the sequence of calls of \<open>set_user_agent\<close>, the context's
  reference to the baseline context, the baseline context itself, and the settings
  obtained from it (languages, character sets, proxy) are as they were: the context
  after the calls differs from the context before them in the field \<open>user_agent\<close>
  at most.
\<close>

theorem set_user_agent_frame:
  "baseline_context (fold set_user_agent uas rc) = baseline_context rc \<and>
   accept_language (fold set_user_agent uas rc) = accept_language rc \<and>
   accept_charset (fold set_user_agent uas rc) = accept_charset rc \<and>
   proxy_service (fold set_user_agent uas rc) = proxy_service rc \<and>
   (fold set_user_agent uas rc)\<lparr>user_agent := u\<rparr> = rc\<lparr>user_agent := u\<rparr>"
  by (simp add: fold_set_user_agent)

subsection \<open>The settings obtained from the baseline context\<close>

text \<open>
  Claim C8. A bridged context built on a baseline context, after any sequence of calls
  of \<open>set_user_agent\<close>, has the accepted languages, the accepted character sets and
  the proxy service of that baseline context, to which it still refers.
\<close>

theorem RequestContext_settings_of_baseline:
  "accept_language (fold set_user_agent uas (RequestContext baseline))
     = accept_language baseline \<and>
   accept_charset (fold set_user_agent uas (RequestContext baseline))
     = accept_charset baseline \<and>
   proxy_service (fold set_user_agent uas (RequestContext baseline))
     = proxy_service baseline \<and>
   baseline_context (fold set_user_agent uas (RequestContext baseline)) = baseline"
  by (simp add: fold_set_user_agent RequestContext_def)

subsection \<open>The outcome of a fetch\<close>




subsection \<open>The response body\<close>

text \<open>
  Claim C5, as stated, holds of every completed bridge. The length is returned as a
  C++ \<^verbatim>\<open>int\<close>: after a completion with a body of \<open>2\<^sup>3\<^sup>1\<close> bytes the content has
  2147483648 bytes and the length returned is \<open>-2147483648\<close>.
\<close>

theorem GetResponseContentLength_two_gib_body:
  "request_completed
     (OnURLFetchComplete example_bridge 0 ''https://sync.example/command''
        \<lparr>status = SUCCESS, os_error = 0\<rparr> 200 [] two_gib_body) \<and>
   int (length (GetResponseContent
     (OnURLFetchComplete example_bridge 0 ''https://sync.example/command''
        \<lparr>status = SUCCESS, os_error = 0\<rparr> 200 [] two_gib_body))) = 2147483648 \<and>
   sint (GetResponseContentLength
     (OnURLFetchComplete example_bridge 0 ''https://sync.example/command''
        \<lparr>status = SUCCESS, os_error = 0\<rparr> 200 [] two_gib_body)) = - 2147483648 \<and>
   sint (GetResponseContentLength
     (OnURLFetchComplete example_bridge 0 ''https://sync.example/command''
        \<lparr>status = SUCCESS, os_error = 0\<rparr> 200 [] two_gib_body))
     \<noteq> int (length (GetResponseContent
         (OnURLFetchComplete example_bridge 0 ''https://sync.example/command''
            \<lparr>status = SUCCESS, os_error = 0\<rparr> 200 [] two_gib_body)))"
  by (simp add: GetResponseContentLength_def GetResponseContent_def
      OnURLFetchComplete_fields length_two_gib_body)

text \<open>
  Claim C5, amended. For every bridge whose content is shorter than \<open>2\<^sup>3\<^sup>1\<close> bytes,
  and so for every bridge whose send has completed with such a body, the length the
  bridge reports is the number of bytes of the content it returns; after a completion
  the content is the body the engine delivered, byte for byte, so a NUL byte in the
  body neither ends it nor is left out of the count.
\<close>

theorem GetResponseContentLength_is_length:
  "(length (GetResponseContent b) < 2 ^ 31 \<longrightarrow>
      sint (GetResponseContentLength b) = int (length (GetResponseContent b))) \<and>
   GetResponseContent (OnURLFetchComplete b0 source url st response_code cookies data)
     = data \<and>
   (length data < 2 ^ 31 \<longrightarrow>
      sint (GetResponseContentLength
              (OnURLFetchComplete b0 source url st response_code cookies data))
        = int (length data))"
  by (simp add: GetResponseContentLength_def GetResponseContent_def
      OnURLFetchComplete_fields sint_of_nat_small)

text \<open>A body of three bytes, the second of them NUL.\<close>

theorem GetResponseContentLength_is_length_witness:
  "length [CHR ''a'', CHR 0x00, CHR ''b''] < 2 ^ 31 \<and>
   sint (GetResponseContentLength
     (OnURLFetchComplete example_bridge 0 ''https://sync.example/command''
        \<lparr>status = SUCCESS, os_error = 0\<rparr> 200 [] [CHR ''a'', CHR 0x00, CHR ''b''])) = 3 \<and>
   GetResponseContent
     (OnURLFetchComplete example_bridge 0 ''https://sync.example/command''
        \<lparr>status = SUCCESS, os_error = 0\<rparr> 200 [] [CHR ''a'', CHR 0x00, CHR ''b''])
     = [CHR ''a'', CHR 0x00, CHR ''b'']"
  using GetResponseContentLength_is_length
    [where b0 = example_bridge and source = 0 and url = "''https://sync.example/command''"
       and st = "\<lparr>status = SUCCESS, os_error = 0\<rparr>" and response_code = 200
       and cookies = "[]" and data = "[CHR ''a'', CHR 0x00, CHR ''b'']"]
  by simp

end
